theory Spec2Isabelle
  imports Main
begin

section \<open>Data model\<close>

text \<open>
  The route module \<^verbatim>\<open>backend/routes/Registration.mjs\<close> wires three handlers into an
  Express router. A request body carries the three form fields; the mongoose document
  built from them by \<^verbatim>\<open>new user({username, password, email})\<close> carries the same three
  attributes. An absent body field reads as the empty string, which is how the
  validators see it, and which \<^verbatim>\<open>notEmpty()\<close> rejects.
\<close>

record user_fields =
  username :: string
  password :: string
  email :: string

text \<open>
  A user document: the three attributes plus the identifier the store assigns when
  the document is persisted (\<open>None\<close> on a document that was only constructed).
\<close>

record user_doc = user_fields +
  ident :: "nat option"

text \<open>The query objects handed to \<^verbatim>\<open>user.findOne\<close>: \<^verbatim>\<open>{ username }\<close> and \<^verbatim>\<open>{ email }\<close>.\<close>

datatype query = ByUsername string | ByEmail string

text \<open>What a collaborator can throw (or reject its promise with) inside a \<^verbatim>\<open>try\<close> block.\<close>

datatype exn = StoreError | HashError | TypeError

text \<open>The JSON bodies the handlers send.\<close>

datatype json_body =
  Message string
  | MessageUser string user_doc
  | Available bool

text \<open>
  The Express response object. \<^verbatim>\<open>response.status(code)\<close> only records the status code
  and returns the response for chaining; \<^verbatim>\<open>response.json(body)\<close> is what sends the
  response. \<open>sent\<close> is \<open>None\<close> as long as nothing has been sent to the client.
\<close>

record response =
  statusCode :: nat
  sent :: "json_body option"

definition status :: "nat \<Rightarrow> response \<Rightarrow> response" where
  "status code r = r\<lparr>statusCode := code\<rparr>"

definition json :: "json_body \<Rightarrow> response \<Rightarrow> response" where
  "json b r = r\<lparr>sent := Some b\<rparr>"

text \<open>
  The session object of the request (\<^verbatim>\<open>request.session\<close>); it is \<open>None\<close> (undefined) on
  a request that no session middleware has touched.
\<close>

record session_obj =
  user :: "user_doc option"

record request =
  body :: user_fields
  params :: "string \<Rightarrow> string"
  session :: "session_obj option"

text \<open>
  The calls a handler makes to its collaborators, recorded in the order they are made,
  each with whether it returned or threw.
\<close>

datatype call = FindOne query | HashPassword string | Save user_doc

datatype outcome = Returned | Threw

fun outcome_of :: "exn + 'a \<Rightarrow> outcome" where
  "outcome_of (Inl e) = Threw"
| "outcome_of (Inr v) = Returned"

text \<open>
  What one run of a handler sees and changes: the user collection behind the mongoose
  model, the request, the response, and the record of collaborator calls. A run is taken
  on its own: between its calls the collection changes only through its own \<^verbatim>\<open>save\<close>.
\<close>

record state =
  store :: "user_doc list"
  request :: request
  response :: response
  calls :: "(call \<times> outcome) list"

text \<open>
  A request as it reaches a handler: Node creates the response with status code 200 and
  nothing sent.
\<close>

definition incoming :: "user_doc list \<Rightarrow> request \<Rightarrow> state" where
  "incoming docs rq =
     \<lparr>store = docs, request = rq, response = \<lparr>statusCode = 200, sent = None\<rparr>, calls = []\<rparr>"

section \<open>Collaborators\<close>

text \<open>
  The module imports its collaborators: \<^verbatim>\<open>isEmail\<close> of express-validator, the mongoose
  model \<^verbatim>\<open>user\<close> (\<^verbatim>\<open>findOne\<close>, \<^verbatim>\<open>save\<close>) and \<^verbatim>\<open>hashPassword\<close>. They are parameters of
  the handlers here. A lookup reads the collection and returns a document, null
  (\<open>None\<close>) or throws; hashing returns the hash or throws; saving leaves a new
  collection and returns the saved document or throws.
\<close>

record collab =
  isEmail :: "string \<Rightarrow> bool"
  findOne :: "query \<Rightarrow> user_doc list \<Rightarrow> exn + user_doc option"
  hashPassword :: "string \<Rightarrow> exn + string"
  save :: "user_doc \<Rightarrow> user_doc list \<Rightarrow> user_doc list \<times> (exn + user_doc)"

definition call_findOne :: "collab \<Rightarrow> query \<Rightarrow> state \<Rightarrow> state \<times> (exn + user_doc option)" where
  "call_findOne c f s =
     (let r = findOne c f (store s)
      in (s\<lparr>calls := calls s @ [(FindOne f, outcome_of r)]\<rparr>, r))"

definition call_hashPassword :: "collab \<Rightarrow> string \<Rightarrow> state \<Rightarrow> state \<times> (exn + string)" where
  "call_hashPassword c p s =
     (let r = hashPassword c p
      in (s\<lparr>calls := calls s @ [(HashPassword p, outcome_of r)]\<rparr>, r))"

definition call_save :: "collab \<Rightarrow> user_doc \<Rightarrow> state \<Rightarrow> state \<times> (exn + user_doc)" where
  "call_save c d s =
     (let (docs, r) = save c d (store s)
      in (s\<lparr>store := docs, calls := calls s @ [(Save d, outcome_of r)]\<rparr>, r))"

text \<open>\<^verbatim>\<open>new user({username, password, email})\<close>: a document that has not been persisted.\<close>

definition new_user :: "string \<Rightarrow> string \<Rightarrow> string \<Rightarrow> user_doc" where
  "new_user u p e = \<lparr>username = u, password = p, email = e, ident = None\<rparr>"

text \<open>
  \<^verbatim>\<open>request.session.user = newUser\<close>: a TypeError when \<^verbatim>\<open>request.session\<close> is undefined.
\<close>

definition set_session_user :: "user_doc \<Rightarrow> request \<Rightarrow> exn + request" where
  "set_session_user u rq =
     (case session rq of
        None \<Rightarrow> Inl TypeError
      | Some se \<Rightarrow> Inr (rq\<lparr>session := Some (se\<lparr>user := Some u\<rparr>)\<rparr>))"

section \<open>Field validation\<close>

definition notEmpty :: "string \<Rightarrow> bool" where
  "notEmpty v = (v \<noteq> [])"

definition isLength_min :: "nat \<Rightarrow> string \<Rightarrow> bool" where
  "isLength_min n v = (n \<le> length v)"

text \<open>
  The three validation chains of the route; every validator of a chain runs, and each
  failure adds its message. \<^verbatim>\<open>result.isEmpty()\<close> is the list being empty.
\<close>

definition validationResult :: "collab \<Rightarrow> user_fields \<Rightarrow> string list" where
  "validationResult c b =
     (if notEmpty (username b) then [] else [''Username is required'']) @
     (if isLength_min 3 (username b) then []
      else [''Username must be at least 3 characters long'']) @
     (if notEmpty (password b) then [] else [''Password is required'']) @
     (if isLength_min 3 (password b) then []
      else [''Password must be at least 3 characters long'']) @
     (if notEmpty (email b) then [] else [''Email is required'']) @
     (if isEmail c (email b) then [] else [''Must be a valid email address''])"

section \<open>The handlers\<close>

text \<open>The \<^verbatim>\<open>catch\<close> clause of the registration handler.\<close>

definition register_catch :: "state \<Rightarrow> state" where
  "register_catch s =
     s\<lparr>response := json (Message ''Error creating user account'') (status 500 (response s))\<rparr>"

text \<open>\<^verbatim>\<open>POST /api/register\<close>.\<close>

definition register :: "collab \<Rightarrow> state \<Rightarrow> state" where
  "register c s =
     (if validationResult c (body (request s)) \<noteq> []
      then s\<lparr>response := status 400 (response s)\<rparr>
      else
        let username = username (body (request s));
            password = password (body (request s));
            email = email (body (request s))
        in
        case call_findOne c (ByUsername username) s of
          (s1, Inl error) \<Rightarrow> register_catch s1
        | (s1, Inr (Some userExists)) \<Rightarrow>
            s1\<lparr>response := json (Message ''Username taken'') (status 400 (response s1))\<rparr>
        | (s1, Inr None) \<Rightarrow>
           (case call_findOne c (ByEmail email) s1 of
              (s2, Inl error) \<Rightarrow> register_catch s2
            | (s2, Inr (Some emailExists)) \<Rightarrow>
                s2\<lparr>response :=
                     json (Message ''Email previously registered'') (status 400 (response s2))\<rparr>
            | (s2, Inr None) \<Rightarrow>
               (case call_hashPassword c password s2 of
                  (s3, Inl error) \<Rightarrow> register_catch s3
                | (s3, Inr hashed) \<Rightarrow>
                   (let newUser = new_user username hashed email in
                    case call_save c newUser s3 of
                      (s4, Inl error) \<Rightarrow> register_catch s4
                    | (s4, Inr savedUser) \<Rightarrow>
                       (case set_session_user newUser (request s4) of
                          Inl error \<Rightarrow> register_catch s4
                        | Inr rq \<Rightarrow>
                            s4\<lparr>request := rq,
                               response :=
                                 json (MessageUser ''Registration successful'' newUser)
                                   (status 201 (response s4))\<rparr>)))))"

text \<open>\<^verbatim>\<open>GET /api/register/usercheck/:username\<close>.\<close>

definition usercheck :: "collab \<Rightarrow> state \<Rightarrow> state" where
  "usercheck c s =
     (case call_findOne c (ByUsername (params (request s) ''username'')) s of
        (s1, Inr existingUser) \<Rightarrow>
          s1\<lparr>response := json (Available (existingUser = None)) (response s1)\<rparr>
      | (s1, Inl error) \<Rightarrow>
          s1\<lparr>response :=
               json (Message ''Error checking when searching username check'')
                 (status 500 (response s1))\<rparr>)"

text \<open>\<^verbatim>\<open>GET /api/register/emailcheck/:email\<close>.\<close>

definition emailcheck :: "collab \<Rightarrow> state \<Rightarrow> state" where
  "emailcheck c s =
     (case call_findOne c (ByEmail (params (request s) ''email'')) s of
        (s1, Inr existingEmail) \<Rightarrow>
          s1\<lparr>response := json (Available (existingEmail = None)) (response s1)\<rparr>
      | (s1, Inl error) \<Rightarrow>
          s1\<lparr>response :=
               json (Message ''Error checking email availability'')
                 (status 500 (response s1))\<rparr>)"

section \<open>The user store\<close>

text \<open>
  Modelled from the spec: the mongoose model \<^verbatim>\<open>user\<close> of \<^verbatim>\<open>backend/mongoose/user.mjs\<close>,
  which the route module imports, is not among the sources. The spec describes it as a
  persistent collection of user records, queried by exact-match lookup on username or
  email and supporting insert of a new document. \<open>matches\<close> is the exact match of a
  record against a query.
\<close>

fun matches :: "query \<Rightarrow> user_doc \<Rightarrow> bool" where
  "matches (ByUsername u) d = (username d = u)"
| "matches (ByEmail e) d = (email d = e)"

text \<open>
  Modelled from the spec: \<^verbatim>\<open>user.findOne\<close> of the absent model, the exact-match lookup;
  it returns the first matching record, or null when there is none.
\<close>

definition store_findOne :: "query \<Rightarrow> user_doc list \<Rightarrow> exn + user_doc option" where
  "store_findOne f docs = Inr (find (matches f) docs)"

text \<open>
  Modelled from the spec: \<^verbatim>\<open>save\<close> of a document of the absent model, the insert of a
  new document; the saved result carries the store-assigned identifier that the
  constructed document lacks.
\<close>

definition store_save :: "user_doc \<Rightarrow> user_doc list \<Rightarrow> user_doc list \<times> (exn + user_doc)" where
  "store_save d docs =
     (let saved = d\<lparr>ident := Some (length docs)\<rparr> in (docs @ [saved], Inr saved))"

text \<open>
  The collaborators with that store; the email syntax check and the password hash stay
  parameters.
\<close>

definition user_store :: "(string \<Rightarrow> bool) \<Rightarrow> (string \<Rightarrow> exn + string) \<Rightarrow> collab" where
  "user_store is_email hash =
     \<lparr>isEmail = is_email, findOne = store_findOne, hashPassword = hash, save = store_save\<rparr>"

section \<open>Example data\<close>

text \<open>
  The requests and records of the spec's testable properties: an email check that looks
  for the at sign, a hash that never returns its input, the registration of
  \<^verbatim>\<open>bobby\<close>, a stored user \<^verbatim>\<open>alice\<close>, and a store that cannot be reached.
\<close>

definition example_isEmail :: "string \<Rightarrow> bool" where
  "example_isEmail e = (CHR ''@'' \<in> set e)"

definition example_hash :: "string \<Rightarrow> exn + string" where
  "example_hash p = Inr (CHR ''$'' # rev p)"

definition bobby_request :: request where
  "bobby_request =
     \<lparr>body = \<lparr>username = ''bobby'', password = ''secret'', email = ''bob@example.com''\<rparr>,
      params = (\<lambda>k. if k = ''email'' then ''bob@example.com'' else ''bobby''),
      session = Some \<lparr>user = None\<rparr>\<rparr>"

definition alice_doc :: user_doc where
  "alice_doc =
     \<lparr>username = ''alice'', password = ''$drowssap'', email = ''alice@example.com'',
      ident = Some 0\<rparr>"

definition unreachable_store :: collab where
  "unreachable_store =
     \<lparr>isEmail = example_isEmail,
      findOne = (\<lambda>q docs. Inl StoreError),
      hashPassword = example_hash,
      save = (\<lambda>d docs. (docs, Inl StoreError))\<rparr>"

section \<open>Basic facts\<close>

lemma validationResult_empty_iff:
  "validationResult c b = [] \<longleftrightarrow>
     3 \<le> length (username b) \<and> 3 \<le> length (password b) \<and> email b \<noteq> [] \<and> isEmail c (email b)"
  by (auto simp: validationResult_def notEmpty_def isLength_min_def)

lemma status_sel: "statusCode (status code r) = code" "sent (status code r) = sent r"
  by (simp_all add: status_def)

lemma json_status: "json b (status code r) = \<lparr>statusCode = code, sent = Some b\<rparr>"
  by (cases r) (simp add: json_def status_def)

lemma call_findOne_eq:
  "call_findOne c q s =
     (s\<lparr>calls := calls s @ [(FindOne q, outcome_of (findOne c q (store s)))]\<rparr>,
      findOne c q (store s))"
  by (simp add: call_findOne_def Let_def)

lemma call_hashPassword_eq:
  "call_hashPassword c p s =
     (s\<lparr>calls := calls s @ [(HashPassword p, outcome_of (hashPassword c p))]\<rparr>, hashPassword c p)"
  by (simp add: call_hashPassword_def Let_def)

lemma call_save_eq:
  "call_save c d s =
     (s\<lparr>store := fst (save c d (store s)),
        calls := calls s @ [(Save d, outcome_of (snd (save c d (store s))))]\<rparr>,
      snd (save c d (store s)))"
  by (simp add: call_save_def Let_def split: prod.splits)

lemmas call_eqs = call_findOne_eq call_hashPassword_eq call_save_eq

lemma incoming_sel:
  "store (incoming docs rq) = docs" "request (incoming docs rq) = rq"
  "response (incoming docs rq) = \<lparr>statusCode = 200, sent = None\<rparr>" "calls (incoming docs rq) = []"
  by (simp_all add: incoming_def)

lemma store_lookups:
  "findOne (user_store ie h) q docs = Inr (find (matches q) docs)"
  "save (user_store ie h) d docs =
     (docs @ [d\<lparr>ident := Some (length docs)\<rparr>], Inr (d\<lparr>ident := Some (length docs)\<rparr>))"
  "hashPassword (user_store ie h) = h"
  "isEmail (user_store ie h) = ie"
  by (simp_all add: user_store_def store_findOne_def store_save_def Let_def)

lemma find_matches_username:
  "find (matches (ByUsername u)) docs = None \<longleftrightarrow> u \<notin> username ` set docs"
  by (auto simp: find_None_iff)

lemma find_matches_email:
  "find (matches (ByEmail e)) docs = None \<longleftrightarrow> e \<notin> email ` set docs"
  by (auto simp: find_None_iff)

section \<open>The paths through the registration handler\<close>

lemma register_rejected:
  "validationResult c (body (request s)) \<noteq> [] \<Longrightarrow>
   register c s = s\<lparr>response := (response s)\<lparr>statusCode := 400\<rparr>\<rparr>"
  by (simp add: register_def status_def)

lemma register_username_found:
  assumes "validationResult c (body (request s)) = []"
    and "findOne c (ByUsername (username (body (request s)))) (store s) = Inr (Some d)"
  shows "register c s =
     s\<lparr>calls := calls s @ [(FindOne (ByUsername (username (body (request s)))), Returned)],
       response := \<lparr>statusCode = 400, sent = Some (Message ''Username taken'')\<rparr>\<rparr>"
  using assms by (simp add: register_def call_eqs json_status)

lemma register_email_found:
  assumes "validationResult c (body (request s)) = []"
    and "findOne c (ByUsername (username (body (request s)))) (store s) = Inr None"
    and "findOne c (ByEmail (email (body (request s)))) (store s) = Inr (Some d)"
  shows "register c s =
     s\<lparr>calls := calls s @ [(FindOne (ByUsername (username (body (request s)))), Returned),
                           (FindOne (ByEmail (email (body (request s)))), Returned)],
       response := \<lparr>statusCode = 400, sent = Some (Message ''Email previously registered'')\<rparr>\<rparr>"
  using assms by (simp add: register_def call_eqs json_status)

lemma register_created:
  assumes "validationResult c (body (request s)) = []"
    and "findOne c (ByUsername (username (body (request s)))) (store s) = Inr None"
    and "findOne c (ByEmail (email (body (request s)))) (store s) = Inr None"
    and "hashPassword c (password (body (request s))) = Inr hashed"
    and "save c (new_user (username (body (request s))) hashed (email (body (request s))))
           (store s) = (docs, Inr savedUser)"
    and "session (request s) = Some se"
  shows "register c s =
     s\<lparr>store := docs,
       calls := calls s @ [(FindOne (ByUsername (username (body (request s)))), Returned),
                           (FindOne (ByEmail (email (body (request s)))), Returned),
                           (HashPassword (password (body (request s))), Returned),
                           (Save (new_user (username (body (request s))) hashed
                                    (email (body (request s)))), Returned)],
       request := (request s)\<lparr>session := Some (se\<lparr>user :=
           Some (new_user (username (body (request s))) hashed (email (body (request s))))\<rparr>)\<rparr>,
       response := \<lparr>statusCode = 201,
          sent = Some (MessageUser ''Registration successful''
            (new_user (username (body (request s))) hashed (email (body (request s)))))\<rparr>\<rparr>"
  using assms by (simp add: register_def Let_def call_eqs json_status set_session_user_def)

text \<open>Every path sets the status code, and only the last one sets 201.\<close>

lemma register_201_iff:
  "statusCode (response (register c s)) = 201 \<longleftrightarrow>
     validationResult c (body (request s)) = [] \<and>
     findOne c (ByUsername (username (body (request s)))) (store s) = Inr None \<and>
     findOne c (ByEmail (email (body (request s)))) (store s) = Inr None \<and>
     (\<exists>hashed. hashPassword c (password (body (request s))) = Inr hashed \<and>
        (\<exists>savedUser. snd (save c (new_user (username (body (request s))) hashed
             (email (body (request s)))) (store s)) = Inr savedUser)) \<and>
     session (request s) \<noteq> None"
  by (auto simp: register_def Let_def register_catch_def call_eqs json_status set_session_user_def
      status_sel split: sum.splits option.splits)

text \<open>A run that ends with status code 201 went through every step of the handler.\<close>

lemma register_201_run:
  assumes "statusCode (response (register c s)) = 201"
  obtains hashed docs savedUser se where
    "hashPassword c (password (body (request s))) = Inr hashed"
    "save c (new_user (username (body (request s))) hashed (email (body (request s))))
       (store s) = (docs, Inr savedUser)"
    "session (request s) = Some se"
    "register c s =
     s\<lparr>store := docs,
       calls := calls s @ [(FindOne (ByUsername (username (body (request s)))), Returned),
                           (FindOne (ByEmail (email (body (request s)))), Returned),
                           (HashPassword (password (body (request s))), Returned),
                           (Save (new_user (username (body (request s))) hashed
                                    (email (body (request s)))), Returned)],
       request := (request s)\<lparr>session := Some (se\<lparr>user :=
           Some (new_user (username (body (request s))) hashed (email (body (request s))))\<rparr>)\<rparr>,
       response := \<lparr>statusCode = 201,
          sent = Some (MessageUser ''Registration successful''
            (new_user (username (body (request s))) hashed (email (body (request s)))))\<rparr>\<rparr>"
proof -
  from assms obtain hashed savedUser se where
    v: "validationResult c (body (request s)) = []"
    and u: "findOne c (ByUsername (username (body (request s)))) (store s) = Inr None"
    and e: "findOne c (ByEmail (email (body (request s)))) (store s) = Inr None"
    and h: "hashPassword c (password (body (request s))) = Inr hashed"
    and sv: "snd (save c (new_user (username (body (request s))) hashed
             (email (body (request s)))) (store s)) = Inr savedUser"
    and se: "session (request s) = Some se"
    unfolding register_201_iff by auto
  from sv have sv': "save c (new_user (username (body (request s))) hashed
      (email (body (request s)))) (store s) =
      (fst (save c (new_user (username (body (request s))) hashed
         (email (body (request s)))) (store s)), Inr savedUser)"
    by (metis prod.collapse)
  show thesis
    using that [OF h sv' se register_created [OF v u e h sv' se]] .
qed

lemma register_not_201:
  assumes "statusCode (response (register c s)) \<noteq> 201"
  shows "request (register c s) = request s"
  using assms
  by (auto simp: register_def Let_def register_catch_def call_eqs json_status
      set_session_user_def status_sel split: sum.splits option.splits if_splits)

section \<open>The example runs\<close>

lemma bobby_valid:
  "validationResult (user_store example_isEmail h) (body bobby_request) = []"
  by (simp add: validationResult_empty_iff store_lookups bobby_request_def example_isEmail_def)

lemma bobby_registers:
  "register (user_store example_isEmail example_hash) (incoming [] bobby_request) =
     \<lparr>store = [\<lparr>username = ''bobby'', password = ''$terces'', email = ''bob@example.com'',
                ident = Some 0\<rparr>],
      request = bobby_request\<lparr>session := Some \<lparr>user =
         Some \<lparr>username = ''bobby'', password = ''$terces'', email = ''bob@example.com'',
               ident = None\<rparr>\<rparr>\<rparr>,
      response = \<lparr>statusCode = 201,
         sent = Some (MessageUser ''Registration successful''
           \<lparr>username = ''bobby'', password = ''$terces'', email = ''bob@example.com'',
            ident = None\<rparr>)\<rparr>,
      calls = [(FindOne (ByUsername ''bobby''), Returned),
               (FindOne (ByEmail ''bob@example.com''), Returned),
               (HashPassword ''secret'', Returned),
               (Save \<lparr>username = ''bobby'', password = ''$terces'', email = ''bob@example.com'',
                      ident = None\<rparr>, Returned)]\<rparr>"
proof -
  let ?s = "incoming [] bobby_request"
  let ?newUser = "new_user (username (body (request ?s))) ''$terces'' (email (body (request ?s)))"
  have "register (user_store example_isEmail example_hash) ?s =
     ?s\<lparr>store := [(new_user ''bobby'' ''$terces'' ''bob@example.com'')\<lparr>ident := Some 0\<rparr>],
       calls := calls ?s @
          [(FindOne (ByUsername (username (body (request ?s)))), Returned),
           (FindOne (ByEmail (email (body (request ?s)))), Returned),
           (HashPassword (password (body (request ?s))), Returned),
           (Save ?newUser, Returned)],
       request := (request ?s)\<lparr>session := Some (\<lparr>user = None\<rparr>\<lparr>user := Some ?newUser\<rparr>)\<rparr>,
       response := \<lparr>statusCode = 201,
          sent = Some (MessageUser ''Registration successful'' ?newUser)\<rparr>\<rparr>"
    by (intro register_created)
       (simp_all add: store_lookups incoming_sel bobby_valid,
        simp_all add: bobby_request_def example_hash_def)
  then show ?thesis
    by (simp add: incoming_def new_user_def bobby_request_def)
qed

lemma alice_again:
  "register (user_store example_isEmail example_hash)
     (incoming [alice_doc] (bobby_request\<lparr>body :=
         \<lparr>username = ''alice'', password = ''secret'', email = ''bob@example.com''\<rparr>\<rparr>)) =
   \<lparr>store = [alice_doc],
    request = bobby_request\<lparr>body :=
         \<lparr>username = ''alice'', password = ''secret'', email = ''bob@example.com''\<rparr>\<rparr>,
    response = \<lparr>statusCode = 400, sent = Some (Message ''Username taken'')\<rparr>,
    calls = [(FindOne (ByUsername ''alice''), Returned)]\<rparr>"
proof -
  let ?rq = "bobby_request\<lparr>body :=
         \<lparr>username = ''alice'', password = ''secret'', email = ''bob@example.com''\<rparr>\<rparr>"
  have "validationResult (user_store example_isEmail example_hash)
          (body (request (incoming [alice_doc] ?rq))) = []"
    by (simp add: validationResult_empty_iff store_lookups example_isEmail_def incoming_sel)
  moreover have "findOne (user_store example_isEmail example_hash)
      (ByUsername (username (body (request (incoming [alice_doc] ?rq)))))
      (store (incoming [alice_doc] ?rq)) = Inr (Some alice_doc)"
    by (simp add: store_lookups incoming_sel alice_doc_def)
  ultimately show ?thesis
    by (simp add: register_username_found incoming_def)
qed

lemma unreachable_runs:
  "register unreachable_store (incoming [] bobby_request) =
     \<lparr>store = [], request = bobby_request,
      response = \<lparr>statusCode = 500, sent = Some (Message ''Error creating user account'')\<rparr>,
      calls = [(FindOne (ByUsername ''bobby''), Threw)]\<rparr>"
  "usercheck unreachable_store (incoming [] bobby_request) =
     \<lparr>store = [], request = bobby_request,
      response = \<lparr>statusCode = 500,
        sent = Some (Message ''Error checking when searching username check'')\<rparr>,
      calls = [(FindOne (ByUsername ''bobby''), Threw)]\<rparr>"
  "emailcheck unreachable_store (incoming [] bobby_request) =
     \<lparr>store = [], request = bobby_request,
      response = \<lparr>statusCode = 500, sent = Some (Message ''Error checking email availability'')\<rparr>,
      calls = [(FindOne (ByEmail ''bob@example.com''), Threw)]\<rparr>"
  by (simp_all add: register_def usercheck_def emailcheck_def Let_def register_catch_def
      call_eqs json_status incoming_def unreachable_store_def validationResult_empty_iff
      bobby_request_def example_isEmail_def)




section \<open>Successful registration\<close>




section \<open>Rejected input\<close>

text \<open>
  C2: a request whose username or password is shorter than 3 characters, or whose email
  is not valid, is to be answered 400 with the store untouched. The handler returns
  \<^verbatim>\<open>response.status(400)\<close>, which records the status code and sends nothing: the run
  makes no collaborator call (no lookup, no insert), leaves the store and the request as
  they were, sets the status code to 400, and the response stays unsent.
\<close>

theorem register_invalid_sets_status_only:
  assumes "length (username (body rq)) < 3 \<or> length (password (body rq)) < 3 \<or>
           \<not> isEmail c (email (body rq))"
  shows "register c (incoming docs rq) =
           (incoming docs rq)\<lparr>response := \<lparr>statusCode = 400, sent = None\<rparr>\<rparr>"
proof -
  from assms have "validationResult c (body (request (incoming docs rq))) \<noteq> []"
    by (auto simp: validationResult_empty_iff incoming_sel)
  then show ?thesis
    by (simp add: register_rejected incoming_sel)
qed

theorem register_short_username_sends_nothing:
  "sent (response (register (user_store example_isEmail example_hash)
      (incoming [] (bobby_request\<lparr>body :=
         \<lparr>username = ''bo'', password = ''secret'', email = ''bob@example.com''\<rparr>\<rparr>)))) = None \<and>
   statusCode (response (register (user_store example_isEmail example_hash)
      (incoming [] (bobby_request\<lparr>body :=
         \<lparr>username = ''bo'', password = ''secret'', email = ''bob@example.com''\<rparr>\<rparr>)))) = 400 \<and>
   store (register (user_store example_isEmail example_hash)
      (incoming [] (bobby_request\<lparr>body :=
         \<lparr>username = ''bo'', password = ''secret'', email = ''bob@example.com''\<rparr>\<rparr>))) = [] \<and>
   calls (register (user_store example_isEmail example_hash)
      (incoming [] (bobby_request\<lparr>body :=
         \<lparr>username = ''bo'', password = ''secret'', email = ''bob@example.com''\<rparr>\<rparr>))) = []"
  using register_invalid_sets_status_only [of
      "bobby_request\<lparr>body :=
         \<lparr>username = ''bo'', password = ''secret'', email = ''bob@example.com''\<rparr>\<rparr>"
      "user_store example_isEmail example_hash" "[]"]
  by (simp add: incoming_sel)

section \<open>Uniqueness conflicts\<close>

text \<open>
  C3: when the store holds a record with the request's username, a request that passes
  validation is answered 400 with \<^verbatim>\<open>{message: "Username taken"}\<close>; the only collaborator
  call is the username lookup, so nothing is inserted and the store is unchanged.
\<close>

theorem register_username_taken:
  assumes "validationResult (user_store is_email hash) (body rq) = []"
    and "username (body rq) \<in> username ` set docs"
  shows "register (user_store is_email hash) (incoming docs rq) =
           (incoming docs rq)
             \<lparr>calls := [(FindOne (ByUsername (username (body rq))), Returned)],
              response := \<lparr>statusCode = 400, sent = Some (Message ''Username taken'')\<rparr>\<rparr>"
proof -
  from assms(2) obtain d where "find (matches (ByUsername (username (body rq)))) docs = Some d"
    using find_matches_username [of "username (body rq)" docs] by auto
  then have "findOne (user_store is_email hash)
      (ByUsername (username (body (request (incoming docs rq))))) (store (incoming docs rq)) =
      Inr (Some d)"
    by (simp add: store_lookups incoming_sel)
  with assms(1) show ?thesis
    by (simp add: register_username_found incoming_sel)
qed

theorem register_username_taken_witness:
  "register (user_store example_isEmail example_hash)
     (incoming [alice_doc] (bobby_request\<lparr>body :=
         \<lparr>username = ''alice'', password = ''secret'', email = ''bob@example.com''\<rparr>\<rparr>)) =
   \<lparr>store = [alice_doc],
    request = bobby_request\<lparr>body :=
         \<lparr>username = ''alice'', password = ''secret'', email = ''bob@example.com''\<rparr>\<rparr>,
    response = \<lparr>statusCode = 400, sent = Some (Message ''Username taken'')\<rparr>,
    calls = [(FindOne (ByUsername ''alice''), Returned)]\<rparr>"
proof -
  let ?rq = "bobby_request\<lparr>body :=
         \<lparr>username = ''alice'', password = ''secret'', email = ''bob@example.com''\<rparr>\<rparr>"
  have v: "validationResult (user_store example_isEmail example_hash) (body ?rq) = []"
    by (simp add: validationResult_empty_iff store_lookups example_isEmail_def)
  have u: "username (body ?rq) \<in> username ` set [alice_doc]"
    by (simp add: alice_doc_def)
  show ?thesis
    using register_username_taken [OF v u] by (simp add: incoming_def)
qed

text \<open>
  C4: when the store holds no record with the request's username but one with its email,
  a request that passes validation is answered 400 with
  \<^verbatim>\<open>{message: "Email previously registered"}\<close> after the two lookups and nothing else, so
  nothing is inserted; when both a username match and an email match exist, the username
  lookup comes first and the answer is \<^verbatim>\<open>{message: "Username taken"}\<close>.
\<close>

theorem register_email_taken:
  assumes "validationResult (user_store is_email hash) (body rq) = []"
  shows "(username (body rq) \<notin> username ` set docs \<and> email (body rq) \<in> email ` set docs \<longrightarrow>
            register (user_store is_email hash) (incoming docs rq) =
              (incoming docs rq)
                \<lparr>calls := [(FindOne (ByUsername (username (body rq))), Returned),
                            (FindOne (ByEmail (email (body rq))), Returned)],
                 response := \<lparr>statusCode = 400,
                               sent = Some (Message ''Email previously registered'')\<rparr>\<rparr>) \<and>
         (username (body rq) \<in> username ` set docs \<and> email (body rq) \<in> email ` set docs \<longrightarrow>
            response (register (user_store is_email hash) (incoming docs rq)) =
              \<lparr>statusCode = 400, sent = Some (Message ''Username taken'')\<rparr>)"
proof (intro conjI impI)
  assume a: "username (body rq) \<notin> username ` set docs \<and> email (body rq) \<in> email ` set docs"
  then obtain d where "find (matches (ByEmail (email (body rq)))) docs = Some d"
    using find_matches_email [of "email (body rq)" docs] by auto
  moreover from a have "find (matches (ByUsername (username (body rq)))) docs = None"
    by (simp add: find_matches_username)
  ultimately have
    "findOne (user_store is_email hash)
       (ByUsername (username (body (request (incoming docs rq))))) (store (incoming docs rq)) =
       Inr None"
    "findOne (user_store is_email hash)
       (ByEmail (email (body (request (incoming docs rq))))) (store (incoming docs rq)) =
       Inr (Some d)"
    by (simp_all add: store_lookups incoming_sel)
  with assms show "register (user_store is_email hash) (incoming docs rq) =
              (incoming docs rq)
                \<lparr>calls := [(FindOne (ByUsername (username (body rq))), Returned),
                            (FindOne (ByEmail (email (body rq))), Returned)],
                 response := \<lparr>statusCode = 400,
                               sent = Some (Message ''Email previously registered'')\<rparr>\<rparr>"
    by (simp add: register_email_found incoming_sel)
next
  assume a: "username (body rq) \<in> username ` set docs \<and> email (body rq) \<in> email ` set docs"
  then obtain d where "find (matches (ByUsername (username (body rq)))) docs = Some d"
    using find_matches_username [of "username (body rq)" docs] by auto
  then have "findOne (user_store is_email hash)
      (ByUsername (username (body (request (incoming docs rq))))) (store (incoming docs rq)) =
      Inr (Some d)"
    by (simp add: store_lookups incoming_sel)
  with assms show "response (register (user_store is_email hash) (incoming docs rq)) =
              \<lparr>statusCode = 400, sent = Some (Message ''Username taken'')\<rparr>"
    by (simp add: register_username_found incoming_sel)
qed

theorem register_email_taken_witness:
  "register (user_store example_isEmail example_hash)
     (incoming [alice_doc] (bobby_request\<lparr>body :=
         \<lparr>username = ''bobby'', password = ''secret'', email = ''alice@example.com''\<rparr>\<rparr>)) =
   \<lparr>store = [alice_doc],
    request = bobby_request\<lparr>body :=
         \<lparr>username = ''bobby'', password = ''secret'', email = ''alice@example.com''\<rparr>\<rparr>,
    response = \<lparr>statusCode = 400, sent = Some (Message ''Email previously registered'')\<rparr>,
    calls = [(FindOne (ByUsername ''bobby''), Returned),
             (FindOne (ByEmail ''alice@example.com''), Returned)]\<rparr> \<and>
   response (register (user_store example_isEmail example_hash)
     (incoming [alice_doc] (bobby_request\<lparr>body :=
         \<lparr>username = ''alice'', password = ''secret'', email = ''alice@example.com''\<rparr>\<rparr>))) =
   \<lparr>statusCode = 400, sent = Some (Message ''Username taken'')\<rparr>"
proof -
  let ?rq1 = "bobby_request\<lparr>body :=
         \<lparr>username = ''bobby'', password = ''secret'', email = ''alice@example.com''\<rparr>\<rparr>"
  let ?rq2 = "bobby_request\<lparr>body :=
         \<lparr>username = ''alice'', password = ''secret'', email = ''alice@example.com''\<rparr>\<rparr>"
  have v1: "validationResult (user_store example_isEmail example_hash) (body ?rq1) = []"
    by (simp add: validationResult_empty_iff store_lookups example_isEmail_def)
  have v2: "validationResult (user_store example_isEmail example_hash) (body ?rq2) = []"
    by (simp add: validationResult_empty_iff store_lookups example_isEmail_def)
  have m1: "username (body ?rq1) \<notin> username ` set [alice_doc] \<and>
            email (body ?rq1) \<in> email ` set [alice_doc]"
    by (simp add: alice_doc_def)
  have m2: "username (body ?rq2) \<in> username ` set [alice_doc] \<and>
            email (body ?rq2) \<in> email ` set [alice_doc]"
    by (simp add: alice_doc_def)
  show ?thesis
    using register_email_taken [OF v1, of "[alice_doc]"]
      register_email_taken [OF v2, of "[alice_doc]"] m1 m2
    by (simp add: incoming_def)
qed

section \<open>Availability checks\<close>

text \<open>
  C5: for every store state and every path parameter, the username check answers 200 with
  \<^verbatim>\<open>{available: true}\<close> exactly when no record of the store has that username, and with
  \<^verbatim>\<open>{available: false}\<close> otherwise; the email check does the same on the email.
\<close>

theorem availability_checks:
  "response (usercheck (user_store is_email hash) (incoming docs rq)) =
     \<lparr>statusCode = 200,
      sent = Some (Available (params rq ''username'' \<notin> username ` set docs))\<rparr> \<and>
   response (emailcheck (user_store is_email hash) (incoming docs rq)) =
     \<lparr>statusCode = 200,
      sent = Some (Available (params rq ''email'' \<notin> email ` set docs))\<rparr>"
  by (simp add: usercheck_def emailcheck_def call_eqs store_lookups incoming_sel json_def
      find_matches_username find_matches_email)

theorem availability_checks_witness:
  "sent (response (usercheck (user_store example_isEmail example_hash)
      (incoming [alice_doc] bobby_request))) = Some (Available True) \<and>
   sent (response (usercheck (user_store example_isEmail example_hash)
      (incoming [alice_doc] (bobby_request\<lparr>params := (\<lambda>k. ''alice'')\<rparr>)))) =
      Some (Available False) \<and>
   sent (response (emailcheck (user_store example_isEmail example_hash)
      (incoming [alice_doc] bobby_request))) = Some (Available True) \<and>
   sent (response (emailcheck (user_store example_isEmail example_hash)
      (incoming [alice_doc] (bobby_request\<lparr>params := (\<lambda>k. ''alice@example.com'')\<rparr>)))) =
      Some (Available False)"
  using availability_checks [of example_isEmail example_hash "[alice_doc]" bobby_request]
    availability_checks [of example_isEmail example_hash "[alice_doc]"
      "bobby_request\<lparr>params := (\<lambda>k. ''alice'')\<rparr>"]
    availability_checks [of example_isEmail example_hash "[alice_doc]"
      "bobby_request\<lparr>params := (\<lambda>k. ''alice@example.com'')\<rparr>"]
  by (simp add: bobby_request_def alice_doc_def)

text \<open>
  C9: whatever the collaborators do, the two availability handlers leave the store and
  the request (its session included) as they were, and their one collaborator call is a
  lookup, whether it returns or throws.
\<close>

theorem availability_handlers_read_only:
  "store (usercheck c s) = store s \<and> request (usercheck c s) = request s \<and>
   (\<exists>r. calls (usercheck c s) =
      calls s @ [(FindOne (ByUsername (params (request s) ''username'')), r)]) \<and>
   store (emailcheck c s) = store s \<and> request (emailcheck c s) = request s \<and>
   (\<exists>r. calls (emailcheck c s) =
      calls s @ [(FindOne (ByEmail (params (request s) ''email'')), r)])"
  by (simp add: usercheck_def emailcheck_def call_eqs split: sum.splits)

section \<open>Collaborator failures\<close>

text \<open>
  C6: if any call the registration handler makes to the store or to \<^verbatim>\<open>hashPassword\<close>
  throws, the handler answers 500 with \<^verbatim>\<open>{message: "Error creating user account"}\<close>; if
  the lookup of an availability handler throws, that handler answers 500 with its error
  message. The handlers always return a response state: no exception leaves them.
\<close>

theorem collaborator_failure_gives_500:
  "(Threw \<in> snd ` set (calls (register c (incoming docs rq))) \<longrightarrow>
      response (register c (incoming docs rq)) =
        \<lparr>statusCode = 500, sent = Some (Message ''Error creating user account'')\<rparr>) \<and>
   (Threw \<in> snd ` set (calls (usercheck c (incoming docs rq))) \<longrightarrow>
      response (usercheck c (incoming docs rq)) =
        \<lparr>statusCode = 500,
         sent = Some (Message ''Error checking when searching username check'')\<rparr>) \<and>
   (Threw \<in> snd ` set (calls (emailcheck c (incoming docs rq))) \<longrightarrow>
      response (emailcheck c (incoming docs rq)) =
        \<lparr>statusCode = 500, sent = Some (Message ''Error checking email availability'')\<rparr>)"
proof (intro conjI)
  show "Threw \<in> snd ` set (calls (register c (incoming docs rq))) \<longrightarrow>
      response (register c (incoming docs rq)) =
        \<lparr>statusCode = 500, sent = Some (Message ''Error creating user account'')\<rparr>"
    by (auto simp: register_def Let_def register_catch_def call_eqs json_status incoming_sel
        set_session_user_def split: sum.splits option.splits)
  show "Threw \<in> snd ` set (calls (usercheck c (incoming docs rq))) \<longrightarrow>
      response (usercheck c (incoming docs rq)) =
        \<lparr>statusCode = 500,
         sent = Some (Message ''Error checking when searching username check'')\<rparr>"
    by (auto simp: usercheck_def call_eqs json_status incoming_sel split: sum.splits)
  show "Threw \<in> snd ` set (calls (emailcheck c (incoming docs rq))) \<longrightarrow>
      response (emailcheck c (incoming docs rq)) =
        \<lparr>statusCode = 500, sent = Some (Message ''Error checking email availability'')\<rparr>"
    by (auto simp: emailcheck_def call_eqs json_status incoming_sel split: sum.splits)
qed

theorem collaborator_failure_gives_500_witness:
  "response (register unreachable_store (incoming [] bobby_request)) =
     \<lparr>statusCode = 500, sent = Some (Message ''Error creating user account'')\<rparr> \<and>
   response (register (user_store example_isEmail (\<lambda>p. Inl HashError))
               (incoming [] bobby_request)) =
     \<lparr>statusCode = 500, sent = Some (Message ''Error creating user account'')\<rparr> \<and>
   response (register (unreachable_store\<lparr>findOne := store_findOne\<rparr>)
               (incoming [] bobby_request)) =
     \<lparr>statusCode = 500, sent = Some (Message ''Error creating user account'')\<rparr> \<and>
   response (usercheck unreachable_store (incoming [] bobby_request)) =
     \<lparr>statusCode = 500,
      sent = Some (Message ''Error checking when searching username check'')\<rparr> \<and>
   response (emailcheck unreachable_store (incoming [] bobby_request)) =
     \<lparr>statusCode = 500, sent = Some (Message ''Error checking email availability'')\<rparr>"
proof -
  have "Threw \<in> snd ` set (calls (register unreachable_store (incoming [] bobby_request)))"
    "Threw \<in> snd ` set (calls (usercheck unreachable_store (incoming [] bobby_request)))"
    "Threw \<in> snd ` set (calls (emailcheck unreachable_store (incoming [] bobby_request)))"
    by (simp_all add: unreachable_runs)
  moreover have "Threw \<in> snd ` set (calls (register
      (user_store example_isEmail (\<lambda>p. Inl HashError)) (incoming [] bobby_request)))"
    using bobby_valid [of "\<lambda>p. Inl HashError"]
    by (simp add: register_def Let_def register_catch_def call_eqs store_lookups incoming_sel)
  moreover have "Threw \<in> snd ` set (calls (register
      (unreachable_store\<lparr>findOne := store_findOne\<rparr>) (incoming [] bobby_request)))"
    by (simp add: register_def Let_def register_catch_def call_eqs incoming_sel
        unreachable_store_def store_findOne_def validationResult_empty_iff
        bobby_request_def example_isEmail_def example_hash_def set_session_user_def)
  ultimately show ?thesis
    using collaborator_failure_gives_500 [of unreachable_store "[]" bobby_request]
      collaborator_failure_gives_500 [of "user_store example_isEmail (\<lambda>p. Inl HashError)"
        "[]" bobby_request]
      collaborator_failure_gives_500 [of "unreachable_store\<lparr>findOne := store_findOne\<rparr>"
        "[]" bobby_request]
    by blast
qed

section \<open>The session\<close>

text \<open>
  C7: on every successful registration, whatever document \<^verbatim>\<open>save\<close> returns, the object
  put into \<^verbatim>\<open>request.session.user\<close> and the \<^verbatim>\<open>user\<close> field of the 201 response are the
  document \<^verbatim>\<open>newUser\<close> constructed before the save from the username, the hash and the
  email, not the returned \<^verbatim>\<open>savedUser\<close>.
\<close>

theorem session_and_response_hold_newUser:
  assumes "statusCode (response (register c s)) = 201"
  shows "\<exists>hashed docs savedUser se.
     hashPassword c (password (body (request s))) = Inr hashed \<and>
     save c (new_user (username (body (request s))) hashed (email (body (request s))))
       (store s) = (docs, Inr savedUser) \<and>
     session (request s) = Some se \<and>
     session (request (register c s)) =
       Some (se\<lparr>user := Some (new_user (username (body (request s))) hashed
                                 (email (body (request s))))\<rparr>) \<and>
     sent (response (register c s)) =
       Some (MessageUser ''Registration successful''
               (new_user (username (body (request s))) hashed (email (body (request s)))))"
proof -
  from assms obtain hashed docs savedUser se where
    "hashPassword c (password (body (request s))) = Inr hashed"
    "save c (new_user (username (body (request s))) hashed (email (body (request s))))
       (store s) = (docs, Inr savedUser)"
    "session (request s) = Some se"
    and run: "register c s =
     s\<lparr>store := docs,
       calls := calls s @ [(FindOne (ByUsername (username (body (request s)))), Returned),
                           (FindOne (ByEmail (email (body (request s)))), Returned),
                           (HashPassword (password (body (request s))), Returned),
                           (Save (new_user (username (body (request s))) hashed
                                    (email (body (request s)))), Returned)],
       request := (request s)\<lparr>session := Some (se\<lparr>user :=
           Some (new_user (username (body (request s))) hashed (email (body (request s))))\<rparr>)\<rparr>,
       response := \<lparr>statusCode = 201,
          sent = Some (MessageUser ''Registration successful''
            (new_user (username (body (request s))) hashed (email (body (request s)))))\<rparr>\<rparr>"
    by (rule register_201_run)
  then show ?thesis
    by (intro exI [of _ hashed] exI [of _ docs] exI [of _ savedUser] exI [of _ se]) simp
qed

theorem session_and_response_hold_newUser_witness:
  "session (request (register (user_store example_isEmail example_hash)
      (incoming [] bobby_request))) =
     Some \<lparr>user = Some (new_user ''bobby'' ''$terces'' ''bob@example.com'')\<rparr> \<and>
   sent (response (register (user_store example_isEmail example_hash)
      (incoming [] bobby_request))) =
     Some (MessageUser ''Registration successful''
             (new_user ''bobby'' ''$terces'' ''bob@example.com'')) \<and>
   snd (save (user_store example_isEmail example_hash)
          (new_user ''bobby'' ''$terces'' ''bob@example.com'') []) =
     Inr ((new_user ''bobby'' ''$terces'' ''bob@example.com'')\<lparr>ident := Some 0\<rparr>) \<and>
   (new_user ''bobby'' ''$terces'' ''bob@example.com'')\<lparr>ident := Some 0\<rparr> \<noteq>
     new_user ''bobby'' ''$terces'' ''bob@example.com''"
proof -
  have "statusCode (response (register (user_store example_isEmail example_hash)
          (incoming [] bobby_request))) = 201"
    by (simp add: bobby_registers)
  from session_and_response_hold_newUser [OF this]
  show ?thesis
    by (auto simp: incoming_sel store_lookups bobby_request_def example_hash_def new_user_def)
qed

text \<open>
  C8: on every outcome of the registration handler other than the 201 one (validation
  failure, username conflict, email conflict, caught exception) the request, and with it
  \<^verbatim>\<open>request.session\<close>, is unchanged; and a run that changes the request made the
  \<^verbatim>\<open>save\<close> call as its last collaborator call, and that call returned.
\<close>

theorem session_unchanged_unless_201:
  "(statusCode (response (register c s)) \<noteq> 201 \<longrightarrow> request (register c s) = request s) \<and>
   (request (register c s) \<noteq> request s \<longrightarrow>
      (\<exists>before d. calls (register c s) = before @ [(Save d, Returned)]))"
proof (intro conjI impI)
  assume "statusCode (response (register c s)) \<noteq> 201"
  then show "request (register c s) = request s" by (rule register_not_201)
next
  assume "request (register c s) \<noteq> request s"
  then have "statusCode (response (register c s)) = 201"
    using register_not_201 by blast
  then show "\<exists>before d. calls (register c s) = before @ [(Save d, Returned)]"
    by (rule register_201_run) simp
qed

theorem session_unchanged_unless_201_witness:
  "request (register (user_store example_isEmail example_hash)
     (incoming [alice_doc] (bobby_request\<lparr>body :=
         \<lparr>username = ''alice'', password = ''secret'', email = ''bob@example.com''\<rparr>\<rparr>))) =
     bobby_request\<lparr>body :=
         \<lparr>username = ''alice'', password = ''secret'', email = ''bob@example.com''\<rparr>\<rparr> \<and>
   (\<exists>before d. calls (register (user_store example_isEmail example_hash)
       (incoming [] bobby_request)) = before @ [(Save d, Returned)])"
proof -
  let ?c = "user_store example_isEmail example_hash"
  let ?s1 = "incoming [alice_doc] (bobby_request\<lparr>body :=
         \<lparr>username = ''alice'', password = ''secret'', email = ''bob@example.com''\<rparr>\<rparr>)"
  let ?s2 = "incoming [] bobby_request"
  have 1: "statusCode (response (register ?c ?s1)) \<noteq> 201"
    by (simp add: alice_again)
  have 2: "request (register ?c ?s2) \<noteq> request ?s2"
    by (simp add: bobby_registers incoming_sel) (simp add: bobby_request_def)
  show ?thesis
    using session_unchanged_unless_201 [of ?c ?s1] session_unchanged_unless_201 [of ?c ?s2] 1 2
    by (simp add: incoming_sel)
qed

section \<open>Password hashing\<close>




end
